theory Spec2Isabelle
  imports Main "HOL-Library.Word" "HOL-Library.Signed_Division"
begin

section \<open>The PWM LED driver of \<^verbatim>\<open>leds (1).c\<close>\<close>

text \<open>
  The driver is a Linux kernel module: two push-buttons raise interrupts, a deferred work
  item runs a table-driven state machine over a brightness level, and a second work item,
  which reschedules itself for ever, renders the level as a software PWM signal on a GPIO
  line. The embedding below follows the C file function by function. Static variables of
  the module are the fields of one record; every function takes that record and returns
  the updated one. Calls of \<^verbatim>\<open>pr_info\<close> and \<^verbatim>\<open>pr_err\<close> are left out, except
  that the two numbers printed by \<^verbatim>\<open>led_level_func\<close> are its result.
\<close>

subsection \<open>C integers\<close>

text \<open>
  \<^verbatim>\<open>int\<close> is 32 bits wide, \<^verbatim>\<open>long\<close> is 64 bits wide (LP64). Addition, subtraction
  and multiplication wrap around, as the kernel is built with \<^verbatim>\<open>-fno-strict-overflow\<close>
  and as \<^verbatim>\<open>atomic_inc\<close> is specified. Division truncates towards zero; a zero divisor,
  and the quotient of \<^verbatim>\<open>INT_MIN\<close> by \<^verbatim>\<open>-1\<close>, are faults.
\<close>

type_synonym c_int = "32 word"
type_synonym c_long = "64 word"

datatype fault = Divide_By_Zero | Divide_Overflow

definition INT_MIN :: c_int where
  "INT_MIN = - 2147483648"

definition c_div :: "c_int \<Rightarrow> c_int \<Rightarrow> fault + c_int" where
  "c_div a b =
     (if b = 0 then Inl Divide_By_Zero
      else if a = INT_MIN \<and> b = - 1 then Inl Divide_Overflow
      else Inr (word_of_int (sint a sdiv sint b)))"

subsection \<open>Constants and enumerations of the module\<close>

definition DOWN_BUTTON_GPIO :: c_int where "DOWN_BUTTON_GPIO = 23"
definition UP_BUTTON_GPIO :: c_int where "UP_BUTTON_GPIO = 24"
definition LED_GPIO :: c_int where "LED_GPIO = 18"
definition BUTTON_DEBOUNCE :: c_long where "BUTTON_DEBOUNCE = 200"
definition LED_MIN_LEVEL :: c_int where "LED_MIN_LEVEL = 0"
definition LED_MAX_LEVEL_DEFAULT :: c_int where "LED_MAX_LEVEL_DEFAULT = 5"
definition PULSE_FREQUENCY_DEFAULT :: c_int where "PULSE_FREQUENCY_DEFAULT = 100000"
definition LOW :: c_int where "LOW = 0"
definition HIGH :: c_int where "HIGH = 1"

datatype direction = INPUT | OUTPUT

datatype event = NONE | UP | DOWN

text \<open>The third state is \<^verbatim>\<open>MAX\<close> in the C file; the name is taken in HOL.\<close>

datatype led_state = OFF | ON | MAX'

subsection \<open>Kernel interfaces the module calls\<close>

text \<open>
  Time. A \<^verbatim>\<open>struct timespec64\<close> holds seconds and nanoseconds; the two fields are
  mathematical integers here, and \<open>timespec64_valid_strict\<close> is the kernel's predicate of
  that name, which every reading of the real-time clock satisfies. The kernel's
  \<^verbatim>\<open>timespec64_sub\<close> subtracts field by field and normalises the result by adding or
  subtracting \<^verbatim>\<open>NSEC_PER_SEC\<close> until \<open>0 \<le> tv_nsec < NSEC_PER_SEC\<close>; the quotient and
  remainder below are the closed form of those two loops.
\<close>

definition MSEC_PER_SEC :: int where "MSEC_PER_SEC = 1000"
definition USEC_PER_SEC :: int where "USEC_PER_SEC = 1000000"
definition NSEC_PER_MSEC :: int where "NSEC_PER_MSEC = 1000000"
definition NSEC_PER_SEC :: int where "NSEC_PER_SEC = 1000000000"
definition KTIME_SEC_MAX :: int where "KTIME_SEC_MAX = 9223372036"
definition EINVAL :: c_int where "EINVAL = 22"

datatype irqreturn_t = IRQ_NONE | IRQ_HANDLED | IRQ_WAKE_THREAD

record timespec64 =
  tv_sec :: int
  tv_nsec :: int

definition timespec64_valid_strict :: "timespec64 \<Rightarrow> bool" where
  "timespec64_valid_strict ts \<longleftrightarrow>
     0 \<le> tv_sec ts \<and> tv_sec ts < KTIME_SEC_MAX \<and> 0 \<le> tv_nsec ts \<and> tv_nsec ts < NSEC_PER_SEC"

definition timespec64_to_ns :: "timespec64 \<Rightarrow> int" where
  "timespec64_to_ns ts = tv_sec ts * NSEC_PER_SEC + tv_nsec ts"

definition set_normalized_timespec64 :: "int \<Rightarrow> int \<Rightarrow> timespec64" where
  "set_normalized_timespec64 sec nsec =
     \<lparr>tv_sec = sec + nsec div NSEC_PER_SEC, tv_nsec = nsec mod NSEC_PER_SEC\<rparr>"

definition timespec64_sub :: "timespec64 \<Rightarrow> timespec64 \<Rightarrow> timespec64" where
  "timespec64_sub lhs rhs =
     set_normalized_timespec64 (tv_sec lhs - tv_sec rhs) (tv_nsec lhs - tv_nsec rhs)"

text \<open>
  The board: which GPIO numbers are valid, what \<^verbatim>\<open>gpio_request\<close> and
  \<^verbatim>\<open>request_irq\<close> return for a line, and the interrupt number of a line. These are
  decided by the platform, so they are parameters of the model.
\<close>

record board =
  gpio_is_valid :: "c_int \<Rightarrow> bool"
  gpio_request_ret :: "c_int \<Rightarrow> c_int"
  gpio_to_irq :: "c_int \<Rightarrow> c_int"
  request_irq_ret :: "c_int \<Rightarrow> c_int"

subsection \<open>Module parameters and static data\<close>

record config =
  down_button_gpio :: c_int
  up_button_gpio :: c_int
  led_gpio :: c_int
  pulse_frequency :: c_int
  led_max_level :: c_int

definition default_config :: config where
  "default_config =
     \<lparr>down_button_gpio = DOWN_BUTTON_GPIO, up_button_gpio = UP_BUTTON_GPIO,
      led_gpio = LED_GPIO, pulse_frequency = PULSE_FREQUENCY_DEFAULT,
      led_max_level = LED_MAX_LEVEL_DEFAULT\<rparr>"

text \<open>
  The statics of the module, the two work items (\<open>True\<close> when the item is pending on the
  work queue), and the part of the platform the module changes: the lines it holds, the
  level of each line, and the interrupts it has registered.
\<close>

record module_state =
  down_button_irq :: c_int
  up_button_irq :: c_int
  prev_down_button_irq :: timespec64
  prev_up_button_irq :: timespec64
  prev_led_switch :: timespec64
  led_level :: c_int
  led_state :: led_state
  led_event :: event
  led_level_work :: bool
  led_switch_work :: bool
  gpio_held :: "c_int set"
  gpio_line :: "c_int \<Rightarrow> bool"
  irq_held :: "c_int set"

definition initial_state :: module_state where
  "initial_state =
     \<lparr>down_button_irq = 0, up_button_irq = 0,
      prev_down_button_irq = \<lparr>tv_sec = 0, tv_nsec = 0\<rparr>,
      prev_up_button_irq = \<lparr>tv_sec = 0, tv_nsec = 0\<rparr>,
      prev_led_switch = \<lparr>tv_sec = 0, tv_nsec = 0\<rparr>,
      led_level = LED_MIN_LEVEL, led_state = OFF, led_event = NONE,
      led_level_work = False, led_switch_work = False,
      gpio_held = {}, gpio_line = (\<lambda>_. False), irq_held = {}\<rparr>"

subsection \<open>GPIO, interrupt and work-queue primitives\<close>

definition gpio_direction_input :: "c_int \<Rightarrow> module_state \<Rightarrow> module_state" where
  "gpio_direction_input gpio s = s"

definition gpio_set_value :: "c_int \<Rightarrow> c_int \<Rightarrow> module_state \<Rightarrow> module_state" where
  "gpio_set_value gpio v s = s\<lparr>gpio_line := (gpio_line s)(gpio := v \<noteq> 0)\<rparr>"

definition gpio_direction_output :: "c_int \<Rightarrow> c_int \<Rightarrow> module_state \<Rightarrow> module_state" where
  "gpio_direction_output gpio v s = gpio_set_value gpio v s"

definition gpio_get_value :: "c_int \<Rightarrow> module_state \<Rightarrow> c_int" where
  "gpio_get_value gpio s = (if gpio_line s gpio then 1 else 0)"

definition gpio_free :: "c_int \<Rightarrow> module_state \<Rightarrow> module_state" where
  "gpio_free gpio s = s\<lparr>gpio_held := gpio_held s - {gpio}\<rparr>"

definition free_irq :: "c_int \<Rightarrow> module_state \<Rightarrow> module_state" where
  "free_irq irq s = s\<lparr>irq_held := irq_held s - {irq}\<rparr>"

text \<open>\<^verbatim>\<open>schedule_work\<close> marks the item pending; an item already pending stays so.\<close>

definition schedule_led_level_work :: "module_state \<Rightarrow> module_state" where
  "schedule_led_level_work s = s\<lparr>led_level_work := True\<rparr>"

definition schedule_led_switch_work :: "module_state \<Rightarrow> module_state" where
  "schedule_led_switch_work s = s\<lparr>led_switch_work := True\<rparr>"

text \<open>C's logical negation of an \<^verbatim>\<open>int\<close>.\<close>

definition c_not :: "c_int \<Rightarrow> c_int" where
  "c_not v = (if v = 0 then 1 else 0)"

subsection \<open>Startup\<close>

definition validate_led_max_level :: "config \<Rightarrow> config" where
  "validate_led_max_level cfg =
     (if led_max_level cfg <s LED_MIN_LEVEL then cfg\<lparr>led_max_level := LED_MIN_LEVEL\<rparr>
      else cfg)"

definition setup_pwm_led_gpio ::
  "board \<Rightarrow> c_int \<Rightarrow> direction \<Rightarrow> module_state \<Rightarrow> c_int \<times> module_state" where
  "setup_pwm_led_gpio b gpio dir s =
     (if \<not> gpio_is_valid b gpio then (- EINVAL, s)
      else
        let ret = gpio_request_ret b gpio in
        if ret <s 0 then (ret, s)
        else
          let s1 = s\<lparr>gpio_held := insert gpio (gpio_held s)\<rparr> in
          (ret, if dir = INPUT then gpio_direction_input gpio s1
                else gpio_direction_output gpio LOW s1))"

definition setup_pwm_led_gpios :: "board \<Rightarrow> config \<Rightarrow> module_state \<Rightarrow> c_int \<times> module_state" where
  "setup_pwm_led_gpios b cfg s =
     (case setup_pwm_led_gpio b (down_button_gpio cfg) INPUT s of (ret1, s1) \<Rightarrow>
        if ret1 \<noteq> 0 then (ret1, s1)
        else case setup_pwm_led_gpio b (up_button_gpio cfg) INPUT s1 of (ret2, s2) \<Rightarrow>
          if ret2 \<noteq> 0 then (ret2, s2)
          else setup_pwm_led_gpio b (led_gpio cfg) OUTPUT s2)"

definition unset_pwm_led_gpios :: "config \<Rightarrow> module_state \<Rightarrow> module_state" where
  "unset_pwm_led_gpios cfg s =
     gpio_free (led_gpio cfg) (gpio_free (up_button_gpio cfg) (gpio_free (down_button_gpio cfg) s))"

text \<open>
  \<^verbatim>\<open>setup_pwm_led_irq\<close> writes the interrupt number through its pointer argument before
  any check; the model returns it as the second component and the caller stores it.
\<close>

definition setup_pwm_led_irq ::
  "board \<Rightarrow> c_int \<Rightarrow> module_state \<Rightarrow> c_int \<times> c_int \<times> module_state" where
  "setup_pwm_led_irq b gpio s =
     (let irq = gpio_to_irq b gpio in
      if irq <s 0 then (irq, irq, s)
      else
        let ret = request_irq_ret b irq in
        if ret <s 0 then (ret, irq, s)
        else (ret, irq, s\<lparr>irq_held := insert irq (irq_held s)\<rparr>))"

definition setup_pwm_led_irqs :: "board \<Rightarrow> config \<Rightarrow> module_state \<Rightarrow> c_int \<times> module_state" where
  "setup_pwm_led_irqs b cfg s =
     (case setup_pwm_led_irq b (down_button_gpio cfg) s of (ret1, irq1, s1) \<Rightarrow>
        let s1' = s1\<lparr>down_button_irq := irq1\<rparr> in
        if ret1 \<noteq> 0 then (ret1, s1')
        else case setup_pwm_led_irq b (up_button_gpio cfg) s1' of (ret2, irq2, s2) \<Rightarrow>
          let s2' = s2\<lparr>up_button_irq := irq2\<rparr> in
          if ret2 \<noteq> 0 then (ret2, free_irq (down_button_irq s2') s2')
          else (ret2, s2'))"

text \<open>
  \<^verbatim>\<open>pwm_led_init\<close>. The three readings of the clock are the arguments \<open>t1\<close>, \<open>t2\<close> and
  \<open>t3\<close>. The result is the return value, the validated parameters and the state.
\<close>

definition pwm_led_init ::
  "board \<Rightarrow> config \<Rightarrow> timespec64 \<Rightarrow> timespec64 \<Rightarrow> timespec64 \<Rightarrow> module_state
     \<Rightarrow> c_int \<times> config \<times> module_state" where
  "pwm_led_init b cfg0 t1 t2 t3 s =
     (let cfg = validate_led_max_level cfg0 in
      case setup_pwm_led_gpios b cfg s of (ret1, s1) \<Rightarrow>
        if ret1 \<noteq> 0 then (ret1, cfg, s1)
        else case setup_pwm_led_irqs b cfg s1 of (ret2, s2) \<Rightarrow>
          if ret2 \<noteq> 0 then (ret2, cfg, unset_pwm_led_gpios cfg s2)
          else (ret2, cfg,
                schedule_led_switch_work
                  (s2\<lparr>prev_down_button_irq := t1, prev_up_button_irq := t2,
                      prev_led_switch := t3\<rparr>)))"

subsection \<open>The interrupt handler\<close>

text \<open>
  \<open>now\<close> is the reading of the clock at entry. The interval is converted to milliseconds
  in a \<^verbatim>\<open>long\<close>.
\<close>

definition millis_of_interval :: "timespec64 \<Rightarrow> c_long" where
  "millis_of_interval interval =
     word_of_int (tv_sec interval * MSEC_PER_SEC + tv_nsec interval sdiv NSEC_PER_MSEC)"

definition button_irq_handler ::
  "timespec64 \<Rightarrow> c_int \<Rightarrow> module_state \<Rightarrow> irqreturn_t \<times> module_state" where
  "button_irq_handler now irq s =
     (if irq = down_button_irq s then
        let interval = timespec64_sub now (prev_down_button_irq s);
            millis_since_last_irq = millis_of_interval interval
        in if millis_since_last_irq <s BUTTON_DEBOUNCE then (IRQ_HANDLED, s)
           else (IRQ_HANDLED,
                 schedule_led_level_work (s\<lparr>prev_down_button_irq := now, led_event := DOWN\<rparr>))
      else if irq = up_button_irq s then
        let interval = timespec64_sub now (prev_up_button_irq s);
            millis_since_last_irq = millis_of_interval interval
        in if millis_since_last_irq <s BUTTON_DEBOUNCE then (IRQ_HANDLED, s)
           else (IRQ_HANDLED,
                 schedule_led_level_work (s\<lparr>prev_up_button_irq := now, led_event := UP\<rparr>))
      else (IRQ_HANDLED, schedule_led_level_work s))"

subsection \<open>The brightness state machine\<close>

definition do_nothing :: "module_state \<Rightarrow> module_state" where
  "do_nothing s = s"

definition increase_led_brightness :: "module_state \<Rightarrow> module_state" where
  "increase_led_brightness s = s\<lparr>led_level := led_level s + 1\<rparr>"

definition decrease_led_brightness :: "module_state \<Rightarrow> module_state" where
  "decrease_led_brightness s = s\<lparr>led_level := led_level s - 1\<rparr>"

fun fsm_functions :: "led_state \<Rightarrow> event \<Rightarrow> module_state \<Rightarrow> module_state" where
  "fsm_functions OFF NONE = do_nothing"
| "fsm_functions OFF UP = increase_led_brightness"
| "fsm_functions OFF DOWN = do_nothing"
| "fsm_functions ON NONE = do_nothing"
| "fsm_functions ON UP = increase_led_brightness"
| "fsm_functions ON DOWN = decrease_led_brightness"
| "fsm_functions MAX' NONE = do_nothing"
| "fsm_functions MAX' UP = do_nothing"
| "fsm_functions MAX' DOWN = decrease_led_brightness"

definition update_led_state :: "config \<Rightarrow> module_state \<Rightarrow> module_state" where
  "update_led_state cfg s =
     (let level = led_level s in
      if level = LED_MIN_LEVEL then s\<lparr>led_state := OFF\<rparr>
      else if level = led_max_level cfg then s\<lparr>led_state := MAX'\<rparr>
      else s\<lparr>led_state := ON\<rparr>)"

text \<open>
  \<^verbatim>\<open>led_level_func\<close>: dispatch through the table, recompute the state, then compute
  the percentage that is logged. The division comes last, so a fault leaves the statics
  as the first two steps wrote them: \<open>Inl\<close> carries the fault and that state, \<open>Inr\<close> the
  logged pair (percentage, level) and the state.
\<close>

definition led_level_func ::
  "config \<Rightarrow> module_state \<Rightarrow> (fault \<times> module_state) + ((c_int \<times> c_int) \<times> module_state)" where
  "led_level_func cfg s =
     (let s1 = fsm_functions (led_state s) (led_event s) s;
          s2 = update_led_state cfg s1;
          level = led_level s2
      in case c_div (100 * level) (led_max_level cfg) of
           Inl f \<Rightarrow> Inl (f, s2)
         | Inr led_brightness_percent \<Rightarrow> Inr ((led_brightness_percent, level), s2))"

text \<open>The statics after a run of \<^verbatim>\<open>led_level_func\<close>, whether or not it faulted.\<close>

definition state_after ::
  "(fault \<times> module_state) + ((c_int \<times> c_int) \<times> module_state) \<Rightarrow> module_state" where
  "state_after r = (case r of Inl (f, s) \<Rightarrow> s | Inr (out, s) \<Rightarrow> s)"

text \<open>
  The work queue runs a pending item once: it clears the pending mark and calls the
  function. \<open>None\<close> when the item is not pending.
\<close>

definition run_led_level_work ::
  "config \<Rightarrow> module_state
     \<Rightarrow> ((fault \<times> module_state) + ((c_int \<times> c_int) \<times> module_state)) option" where
  "run_led_level_work cfg s =
     (if led_level_work s then Some (led_level_func cfg (s\<lparr>led_level_work := False\<rparr>))
      else None)"

subsection \<open>The software PWM engine\<close>

text \<open>
  The time the line has to stay at its present level (lines 365 to 370 of the C file),
  given the value read from the line and the brightness level.
\<close>

definition required_delay :: "config \<Rightarrow> c_int \<Rightarrow> c_int \<Rightarrow> fault + c_int" where
  "required_delay cfg led_gpio_value level =
     (if led_gpio_value = LOW then
        (case c_div (pulse_frequency cfg * level) (led_max_level cfg) of
           Inl f \<Rightarrow> Inl f
         | Inr q \<Rightarrow> Inr (pulse_frequency cfg - q))
      else c_div (pulse_frequency cfg * level) (led_max_level cfg))"

text \<open>The elapsed time as the C file computes it, stored in an \<^verbatim>\<open>int\<close>.\<close>

definition nanos_since :: "timespec64 \<Rightarrow> timespec64 \<Rightarrow> c_int" where
  "nanos_since now prev =
     (let diff = timespec64_sub now prev
      in word_of_int (tv_sec diff * USEC_PER_SEC + tv_nsec diff))"

definition led_ctrl_func ::
  "config \<Rightarrow> timespec64 \<Rightarrow> module_state \<Rightarrow> (fault \<times> module_state) + module_state" where
  "led_ctrl_func cfg now s =
     (let nanos_since_led_switch = nanos_since now (prev_led_switch s);
          level = led_level s
      in if level = LED_MIN_LEVEL \<or> level = led_max_level cfg then
           Inr (schedule_led_switch_work
                  (gpio_set_value (led_gpio cfg) (if level = LED_MIN_LEVEL then LOW else HIGH) s))
         else
           let led_gpio_value = gpio_get_value (led_gpio cfg) s in
           case required_delay cfg led_gpio_value level of
             Inl f \<Rightarrow> Inl (f, s)
           | Inr delay \<Rightarrow>
               Inr (schedule_led_switch_work
                      (if delay \<le>s nanos_since_led_switch
                       then (gpio_set_value (led_gpio cfg) (c_not led_gpio_value) s)
                              \<lparr>prev_led_switch := now\<rparr>
                       else s)))"

subsection \<open>The specification's transition table\<close>

text \<open>
  The table of the specification, written from its words: states Off, On, Max against
  events None, Increase, Decrease, each entry one of no-op, increment, decrement. It is
  compared with \<open>fsm_functions\<close> below.
\<close>

datatype action = No_Op | Increment | Decrement

fun spec_table :: "led_state \<Rightarrow> event \<Rightarrow> action" where
  "spec_table OFF NONE = No_Op"
| "spec_table OFF UP = Increment"
| "spec_table OFF DOWN = No_Op"
| "spec_table ON NONE = No_Op"
| "spec_table ON UP = Increment"
| "spec_table ON DOWN = Decrement"
| "spec_table MAX' NONE = No_Op"
| "spec_table MAX' UP = No_Op"
| "spec_table MAX' DOWN = Decrement"

fun apply_action :: "action \<Rightarrow> c_int \<Rightarrow> c_int" where
  "apply_action No_Op level = level"
| "apply_action Increment level = level + 1"
| "apply_action Decrement level = level - 1"

subsection \<open>Runs of the module\<close>

text \<open>
  A sequence of accepted button events: each event is stored in \<open>led_event\<close> by the
  interrupt handler and consumed by one run of \<open>led_level_func\<close>. The run stops at the
  first fault.
\<close>

fun run_events ::
  "config \<Rightarrow> event list \<Rightarrow> module_state \<Rightarrow> (fault \<times> module_state) + module_state" where
  "run_events cfg [] s = Inr s"
| "run_events cfg (e # es) s =
     (case led_level_func cfg (s\<lparr>led_event := e\<rparr>) of
        Inl fs \<Rightarrow> Inl fs
      | Inr (out, s') \<Rightarrow> run_events cfg es s')"

text \<open>
  What the specification says an event does to the level when the maximum level is \<open>m\<close>:
  an increase stops at \<open>m\<close>, a decrease stops at 0. Written from its words, to be
  compared with the runs of the code; \<open>level_invariant\<close> is the range of the level
  together with the stored state being the one the level determines.
\<close>

fun level_after_event :: "int \<Rightarrow> event \<Rightarrow> int \<Rightarrow> int" where
  "level_after_event m NONE l = l"
| "level_after_event m UP l = min (l + 1) m"
| "level_after_event m DOWN l = max (l - 1) 0"

fun levels_after_events :: "int \<Rightarrow> event list \<Rightarrow> int \<Rightarrow> int" where
  "levels_after_events m [] l = l"
| "levels_after_events m (e # es) l = levels_after_events m es (level_after_event m e l)"

definition level_invariant :: "config \<Rightarrow> module_state \<Rightarrow> bool" where
  "level_invariant cfg s \<longleftrightarrow>
     0 \<le> sint (led_level s) \<and> sint (led_level s) \<le> sint (led_max_level cfg)
     \<and> led_state s = (if led_level s = 0 then OFF
                       else if led_level s = led_max_level cfg then MAX' else ON)"

text \<open>
  A board on which every line from 0 to 511 is valid, every request succeeds and line
  \<open>n\<close> raises interrupt \<open>n + 160\<close>.
\<close>

definition example_board :: board where
  "example_board =
     \<lparr>gpio_is_valid = (\<lambda>gpio. 0 \<le>s gpio \<and> gpio <s 512),
      gpio_request_ret = (\<lambda>gpio. 0),
      gpio_to_irq = (\<lambda>gpio. gpio + 160),
      request_irq_ret = (\<lambda>irq. 0)\<rparr>"

section \<open>Properties\<close>

lemmas module_consts =
  DOWN_BUTTON_GPIO_def UP_BUTTON_GPIO_def LED_GPIO_def BUTTON_DEBOUNCE_def
  LED_MIN_LEVEL_def LED_MAX_LEVEL_DEFAULT_def PULSE_FREQUENCY_DEFAULT_def LOW_def HIGH_def

lemmas kernel_consts =
  MSEC_PER_SEC_def USEC_PER_SEC_def NSEC_PER_MSEC_def NSEC_PER_SEC_def KTIME_SEC_MAX_def
  EINVAL_def

subsection \<open>Integer arithmetic\<close>

lemma sdiv_nonneg: "0 \<le> a \<Longrightarrow> 0 < b \<Longrightarrow> (a :: int) sdiv b = a div b"
  by (cases "a = 0") (simp_all add: signed_divide_int_def)

lemma int_div_less_iff:
  fixes a c n :: int
  assumes "0 < c"
  shows "a div c < n \<longleftrightarrow> a < n * c"
proof -
  define q where "q = a div c"
  define r where "r = a mod c"
  have a: "a = q * c + r" by (simp add: q_def r_def)
  have r: "0 \<le> r" "r < c" using assms by (simp_all add: r_def)
  have "q < n \<longleftrightarrow> a < n * c"
  proof
    assume "q < n"
    then have "q + 1 \<le> n" by simp
    then have "(q + 1) * c \<le> n * c"
      using assms by (simp only: mult_right_mono less_imp_le)
    then have "q * c + c \<le> n * c" by (simp add: distrib_right)
    with a r show "a < n * c" by linarith
  next
    assume lt: "a < n * c"
    show "q < n"
    proof (rule ccontr)
      assume "\<not> q < n"
      then have "n \<le> q" by simp
      then have "n * c \<le> q * c"
        using assms by (simp only: mult_right_mono less_imp_le)
      with a r lt show False by linarith
    qed
  qed
  then show ?thesis by (simp only: q_def)
qed

lemma div_small_range:
  fixes d n :: int
  assumes "- n < d" "d < n"
  shows "- 1 \<le> d div n \<and> d div n \<le> 0"
proof -
  have n: "0 < n" using assms by simp
  have "d div n < 1" using assms n by (simp add: int_div_less_iff)
  moreover have "\<not> d div n < - 1" using assms n by (simp add: int_div_less_iff)
  ultimately show ?thesis by simp
qed

lemma sint_c_long_of_int:
  "- (2 ^ 63) \<le> k \<Longrightarrow> k < 2 ^ 63 \<Longrightarrow> sint (word_of_int k :: c_long) = k"
  unfolding sint_sbintrunc' by (simp add: signed_take_bit_int_eq_self)



lemma sint_range_c_int: "- (2 ^ 31) \<le> sint (w :: c_int) \<and> sint w < 2 ^ 31"
  using sint_ge [of w] sint_lt [of w] by simp

lemma sint_succ:
  assumes "sint (w :: c_int) < sint (m :: c_int)"
  shows "sint (w + 1) = sint w + 1"
proof -
  have "sint w + 1 < 2 ^ 31" "- (2 ^ 31) \<le> sint w + 1"
    using assms sint_range_c_int [of w] sint_range_c_int [of m] by simp_all
  then show ?thesis
    unfolding sint_word_ariths by (simp add: signed_take_bit_int_eq_self)
qed

lemma sint_pred:
  assumes "0 < sint (w :: c_int)"
  shows "sint (w - 1) = sint w - 1"
proof -
  have "sint w - 1 < 2 ^ 31" "- (2 ^ 31) \<le> sint w - 1"
    using assms sint_range_c_int [of w] by simp_all
  then show ?thesis
    unfolding sint_word_ariths by (simp add: signed_take_bit_int_eq_self)
qed



lemma c_div_zero: "c_div a 0 = Inl Divide_By_Zero"
  by (simp add: c_div_def)

subsection \<open>The state machine\<close>

lemma validate_led_max_level_zero:
  "validate_led_max_level (cfg\<lparr>led_max_level := 0\<rparr>) = cfg\<lparr>led_max_level := 0\<rparr>"
  by (simp add: validate_led_max_level_def LED_MIN_LEVEL_def)

lemma fsm_functions_spec_table:
  "fsm_functions st ev s = s\<lparr>led_level := apply_action (spec_table st ev) (led_level s)\<rparr>"
  by (cases st; cases ev)
     (simp_all add: do_nothing_def increase_led_brightness_def decrease_led_brightness_def)

lemma state_after_led_level_func:
  "state_after (led_level_func cfg s) =
     update_led_state cfg (fsm_functions (led_state s) (led_event s) s)"
  by (simp add: led_level_func_def state_after_def Let_def split: sum.splits)

text \<open>
  Claim C1: the steady-state core cannot fail for any permitted configuration, the
  maximum level 0 included; every division has a non-zero divisor. The code does not
  satisfy it. A maximum level of 0 passes \<open>validate_led_max_level\<close> unchanged, and then
  every run of \<open>led_level_func\<close>, from any state, divides \<open>100 * level\<close> by zero after
  it has updated the level and the state.
\<close>

theorem led_level_func_divides_by_zero:
  "led_level_func (validate_led_max_level (cfg\<lparr>led_max_level := 0\<rparr>)) s =
     Inl (Divide_By_Zero,
          update_led_state (cfg\<lparr>led_max_level := 0\<rparr>)
            (fsm_functions (led_state s) (led_event s) s))"
  by (simp add: validate_led_max_level_zero led_level_func_def c_div_zero Let_def)

text \<open>
  Claim C2: from the initial state (level 0, state Off) the brightness level stays in
  the closed range from 0 to the maximum level, for every maximum level that is not
  negative. The code does not satisfy it at the maximum level 0: the initial state is Off,
  the table increments on Off and Increase, and the level becomes 1. The state computed
  for level 1 is On, so nothing stops further increments.
\<close>

theorem level_above_max_level_zero:
  "state_after (led_level_func (validate_led_max_level (default_config\<lparr>led_max_level := 0\<rparr>))
       (initial_state\<lparr>led_event := UP\<rparr>))
     = initial_state\<lparr>led_event := UP, led_level := 1, led_state := ON\<rparr>
   \<and> \<not> (1 :: c_int) \<le>s led_max_level (validate_led_max_level (default_config\<lparr>led_max_level := 0\<rparr>))"
  by (simp add: validate_led_max_level_zero led_level_func_def c_div_zero Let_def state_after_def
      initial_state_def update_led_state_def increase_led_brightness_def LED_MIN_LEVEL_def
      word_sle_eq)

text \<open>
  Claim C3, as amended: the table of the code is the table of the specification, entry
  by entry; a run of the state machine applies the one action the table gives for the
  stored state and the pending event to the level, changes nothing else, and then
  recomputes the state from the new level: Off exactly when the level is 0, Max exactly
  when the level is the maximum level and is not 0, On exactly when it is neither.
\<close>

theorem fsm_run_matches_table:
  "spec_table OFF NONE = No_Op \<and> spec_table OFF UP = Increment \<and> spec_table OFF DOWN = No_Op
   \<and> spec_table ON NONE = No_Op \<and> spec_table ON UP = Increment \<and> spec_table ON DOWN = Decrement
   \<and> spec_table MAX' NONE = No_Op \<and> spec_table MAX' UP = No_Op \<and> spec_table MAX' DOWN = Decrement
   \<and> fsm_functions st ev s = s\<lparr>led_level := apply_action (spec_table st ev) (led_level s)\<rparr>
   \<and> state_after (led_level_func cfg s) =
       update_led_state cfg
         (s\<lparr>led_level := apply_action (spec_table (led_state s) (led_event s)) (led_level s)\<rparr>)
   \<and> update_led_state cfg t =
       t\<lparr>led_state := (if led_level t = 0 then OFF
                        else if led_level t = led_max_level cfg then MAX' else ON)\<rparr>
   \<and> (led_state (update_led_state cfg t) = OFF \<longleftrightarrow> led_level t = 0)
   \<and> (led_state (update_led_state cfg t) = MAX' \<longleftrightarrow>
        led_level t = led_max_level cfg \<and> led_level t \<noteq> 0)
   \<and> (led_state (update_led_state cfg t) = ON \<longleftrightarrow>
        led_level t \<noteq> 0 \<and> led_level t \<noteq> led_max_level cfg)"
  by (simp add: fsm_functions_spec_table [symmetric] state_after_led_level_func
      update_led_state_def LED_MIN_LEVEL_def Let_def)

text \<open>
  The claim as written asks for state Max whenever the level equals the maximum level.
  With a maximum level of 0 the level 0 equals it, and the recomputed state is Off.
\<close>

theorem saturation_state_counterexample:
  "led_level (state_after (led_level_func
       (validate_led_max_level (default_config\<lparr>led_max_level := 0\<rparr>)) initial_state))
     = led_max_level (validate_led_max_level (default_config\<lparr>led_max_level := 0\<rparr>))
   \<and> led_state (state_after (led_level_func
       (validate_led_max_level (default_config\<lparr>led_max_level := 0\<rparr>)) initial_state))
     \<noteq> MAX'"
  by (simp add: validate_led_max_level_zero led_level_func_def c_div_zero Let_def state_after_def
      initial_state_def update_led_state_def do_nothing_def LED_MIN_LEVEL_def)

text \<open>
  Claim C6: \<open>N\<close> Increase events from level 0 leave the level at the minimum of \<open>N\<close> and
  the maximum level, for every maximum level. The code does not satisfy it at the maximum
  level 0: one Increase event leaves the level at 1, and the minimum of 1 and 0 is 0.
\<close>

theorem one_increase_not_saturated_max_level_zero:
  "run_events (validate_led_max_level (default_config\<lparr>led_max_level := 0\<rparr>)) [UP] initial_state
     = Inl (Divide_By_Zero, initial_state\<lparr>led_event := UP, led_level := 1, led_state := ON\<rparr>)
   \<and> min (1 :: int)
        (sint (led_max_level (validate_led_max_level (default_config\<lparr>led_max_level := 0\<rparr>)))) = 0"
  by (simp add: validate_led_max_level_zero led_level_func_def c_div_zero Let_def
      initial_state_def update_led_state_def increase_led_brightness_def LED_MIN_LEVEL_def)

subsection \<open>The interrupt handler\<close>

lemma interval_total:
  "tv_sec (timespec64_sub now prev) * NSEC_PER_SEC + tv_nsec (timespec64_sub now prev)
     = timespec64_to_ns now - timespec64_to_ns prev"
  by (simp add: timespec64_sub_def set_normalized_timespec64_def timespec64_to_ns_def
      algebra_simps)

lemma interval_nsec_range:
  "0 \<le> tv_nsec (timespec64_sub now prev) \<and> tv_nsec (timespec64_sub now prev) < NSEC_PER_SEC"
  by (simp add: timespec64_sub_def set_normalized_timespec64_def NSEC_PER_SEC_def)

lemma interval_sec_range:
  assumes "timespec64_valid_strict now" "timespec64_valid_strict prev"
  shows "- KTIME_SEC_MAX \<le> tv_sec (timespec64_sub now prev)
         \<and> tv_sec (timespec64_sub now prev) < KTIME_SEC_MAX"
proof -
  let ?d = "tv_nsec now - tv_nsec prev"
  have "- NSEC_PER_SEC < ?d" "?d < NSEC_PER_SEC"
    using assms by (simp_all add: timespec64_valid_strict_def)
  then have "- 1 \<le> ?d div NSEC_PER_SEC \<and> ?d div NSEC_PER_SEC \<le> 0"
    by (rule div_small_range)
  then show ?thesis
    using assms
    by (simp add: timespec64_sub_def set_normalized_timespec64_def timespec64_valid_strict_def)
qed

lemma millis_floor:
  fixes s r :: int
  shows "s * 1000 + r div 1000000 = (s * 1000000000 + r) div 1000000"
proof -
  have "s * 1000000000 = (s * 1000) * 1000000" by simp
  then have "(s * 1000000000 + r) div 1000000 = ((s * 1000) * 1000000 + r) div 1000000"
    by (simp only:)
  also have "\<dots> = s * 1000 + r div 1000000"
    by (rule div_mult_self3) simp
  finally show ?thesis by simp
qed

text \<open>
  For two readings of the clock the \<^verbatim>\<open>long\<close> holds the whole milliseconds of their
  difference, without wrap-around.
\<close>

lemma millis_value:
  assumes "timespec64_valid_strict now" "timespec64_valid_strict prev"
  shows "sint (millis_of_interval (timespec64_sub now prev)) =
           (timespec64_to_ns now - timespec64_to_ns prev) div NSEC_PER_MSEC"
proof -
  define sec where "sec = tv_sec (timespec64_sub now prev)"
  define nsec where "nsec = tv_nsec (timespec64_sub now prev)"
  define q where "q = nsec div 1000000"
  have nr: "0 \<le> nsec" "nsec < 1000000000"
    using interval_nsec_range [of now prev] by (simp_all add: nsec_def NSEC_PER_SEC_def)
  have sr: "- 9223372036 \<le> sec" "sec < 9223372036"
    using interval_sec_range [OF assms] by (simp_all add: sec_def KTIME_SEC_MAX_def)
  have sd: "nsec sdiv NSEC_PER_MSEC = q"
    using nr by (simp add: sdiv_nonneg NSEC_PER_MSEC_def q_def)
  have q0: "0 \<le> q"
    using nr by (simp add: q_def pos_imp_zdiv_nonneg_iff)
  have q1: "q < 1000"
    using nr unfolding q_def by (simp add: int_div_less_iff)
  have range: "- (2 ^ 63) \<le> sec * 1000 + q" "sec * 1000 + q < 2 ^ 63"
    using sr q0 q1 by simp_all
  have "sint (millis_of_interval (timespec64_sub now prev)) =
          sint (word_of_int (sec * 1000 + q) :: c_long)"
    by (simp add: millis_of_interval_def sd sec_def [symmetric] nsec_def [symmetric]
        MSEC_PER_SEC_def)
  also have "\<dots> = sec * 1000 + q"
    using range by (rule sint_c_long_of_int)
  also have "\<dots> = (sec * 1000000000 + nsec) div 1000000"
    unfolding q_def by (rule millis_floor)
  also have "sec * 1000000000 + nsec = timespec64_to_ns now - timespec64_to_ns prev"
    using interval_total [of now prev] by (simp add: sec_def nsec_def NSEC_PER_SEC_def)
  finally show ?thesis by (simp add: NSEC_PER_MSEC_def)
qed

lemma debounce_rejects_iff:
  assumes "timespec64_valid_strict now" "timespec64_valid_strict prev"
  shows "millis_of_interval (timespec64_sub now prev) <s BUTTON_DEBOUNCE \<longleftrightarrow>
           timespec64_to_ns now - timespec64_to_ns prev < 200 * NSEC_PER_MSEC"
proof -
  have "sint BUTTON_DEBOUNCE = 200" by (simp add: BUTTON_DEBOUNCE_def)
  moreover have "0 < NSEC_PER_MSEC" by (simp add: NSEC_PER_MSEC_def)
  ultimately show ?thesis
    by (simp only: word_sless_alt millis_value [OF assms] int_div_less_iff)
qed

text \<open>
  Claim C5: an edge on a button line at time \<open>now\<close> is accepted exactly when \<open>now\<close> minus
  the line's debounce clock is at least 200 ms, the boundary included. An accepted edge
  sets the line's clock to \<open>now\<close>, sets the pending event (Decrease for the down line,
  Increase for the up line) and schedules the state-machine work; a rejected edge changes
  nothing and schedules nothing. The clock readings are valid kernel timestamps, and the
  two lines have different interrupt numbers, as they have once both are registered.
\<close>

theorem debounce_filter:
  assumes "timespec64_valid_strict now"
    and "timespec64_valid_strict (prev_down_button_irq s)"
    and "timespec64_valid_strict (prev_up_button_irq s)"
    and "down_button_irq s \<noteq> up_button_irq s"
  shows "button_irq_handler now (down_button_irq s) s =
           (IRQ_HANDLED,
            if 200 * NSEC_PER_MSEC \<le> timespec64_to_ns now - timespec64_to_ns (prev_down_button_irq s)
            then s\<lparr>prev_down_button_irq := now, led_event := DOWN, led_level_work := True\<rparr>
            else s)
         \<and> button_irq_handler now (up_button_irq s) s =
           (IRQ_HANDLED,
            if 200 * NSEC_PER_MSEC \<le> timespec64_to_ns now - timespec64_to_ns (prev_up_button_irq s)
            then s\<lparr>prev_up_button_irq := now, led_event := UP, led_level_work := True\<rparr>
            else s)"
proof -
  have d: "millis_of_interval (timespec64_sub now (prev_down_button_irq s)) <s BUTTON_DEBOUNCE \<longleftrightarrow>
      \<not> 200 * NSEC_PER_MSEC \<le> timespec64_to_ns now - timespec64_to_ns (prev_down_button_irq s)"
    using debounce_rejects_iff [OF assms(1) assms(2)] by (simp add: not_le)
  have u: "millis_of_interval (timespec64_sub now (prev_up_button_irq s)) <s BUTTON_DEBOUNCE \<longleftrightarrow>
      \<not> 200 * NSEC_PER_MSEC \<le> timespec64_to_ns now - timespec64_to_ns (prev_up_button_irq s)"
    using debounce_rejects_iff [OF assms(1) assms(3)] by (simp add: not_le)
  have ne: "up_button_irq s \<noteq> down_button_irq s"
    using assms(4) by simp
  show ?thesis
    by (simp add: button_irq_handler_def Let_def d u ne schedule_led_level_work_def)
qed

text \<open>
  At exactly 200 ms after the last accepted edge an edge on the up line is accepted; one
  nanosecond earlier an edge on the down line is dropped.
\<close>

theorem debounce_filter_witness:
  "timespec64_valid_strict \<lparr>tv_sec = 10, tv_nsec = 200000000\<rparr>
   \<and> timespec64_valid_strict \<lparr>tv_sec = 10, tv_nsec = 199999999\<rparr>
   \<and> timespec64_valid_strict \<lparr>tv_sec = 10, tv_nsec = 0\<rparr>
   \<and> down_button_irq (initial_state\<lparr>down_button_irq := 183, up_button_irq := 184,
        prev_down_button_irq := \<lparr>tv_sec = 10, tv_nsec = 0\<rparr>,
        prev_up_button_irq := \<lparr>tv_sec = 10, tv_nsec = 0\<rparr>\<rparr>) \<noteq>
      up_button_irq (initial_state\<lparr>down_button_irq := 183, up_button_irq := 184,
        prev_down_button_irq := \<lparr>tv_sec = 10, tv_nsec = 0\<rparr>,
        prev_up_button_irq := \<lparr>tv_sec = 10, tv_nsec = 0\<rparr>\<rparr>)
   \<and> button_irq_handler \<lparr>tv_sec = 10, tv_nsec = 200000000\<rparr> 184
        (initial_state\<lparr>down_button_irq := 183, up_button_irq := 184,
           prev_down_button_irq := \<lparr>tv_sec = 10, tv_nsec = 0\<rparr>,
           prev_up_button_irq := \<lparr>tv_sec = 10, tv_nsec = 0\<rparr>\<rparr>)
      = (IRQ_HANDLED,
         initial_state\<lparr>down_button_irq := 183, up_button_irq := 184,
           prev_down_button_irq := \<lparr>tv_sec = 10, tv_nsec = 0\<rparr>,
           prev_up_button_irq := \<lparr>tv_sec = 10, tv_nsec = 200000000\<rparr>,
           led_event := UP, led_level_work := True\<rparr>)
   \<and> button_irq_handler \<lparr>tv_sec = 10, tv_nsec = 199999999\<rparr> 183
        (initial_state\<lparr>down_button_irq := 183, up_button_irq := 184,
           prev_down_button_irq := \<lparr>tv_sec = 10, tv_nsec = 0\<rparr>,
           prev_up_button_irq := \<lparr>tv_sec = 10, tv_nsec = 0\<rparr>\<rparr>)
      = (IRQ_HANDLED,
         initial_state\<lparr>down_button_irq := 183, up_button_irq := 184,
           prev_down_button_irq := \<lparr>tv_sec = 10, tv_nsec = 0\<rparr>,
           prev_up_button_irq := \<lparr>tv_sec = 10, tv_nsec = 0\<rparr>\<rparr>)"
proof -
  let ?s = "initial_state\<lparr>down_button_irq := 183, up_button_irq := 184,
        prev_down_button_irq := \<lparr>tv_sec = 10, tv_nsec = 0\<rparr>,
        prev_up_button_irq := \<lparr>tv_sec = 10, tv_nsec = 0\<rparr>\<rparr>"
  have v1: "timespec64_valid_strict \<lparr>tv_sec = 10, tv_nsec = 200000000\<rparr>"
    and v2: "timespec64_valid_strict \<lparr>tv_sec = 10, tv_nsec = 199999999\<rparr>"
    and v3: "timespec64_valid_strict \<lparr>tv_sec = 10, tv_nsec = 0\<rparr>"
    by (simp_all add: timespec64_valid_strict_def kernel_consts)
  have vd: "timespec64_valid_strict (prev_down_button_irq ?s)"
    and vu: "timespec64_valid_strict (prev_up_button_irq ?s)"
    using v3 by simp_all
  have ne: "down_button_irq ?s \<noteq> up_button_irq ?s" by simp
  from debounce_filter [OF v1 vd vu ne]
  have a: "button_irq_handler \<lparr>tv_sec = 10, tv_nsec = 200000000\<rparr> 184 ?s =
      (IRQ_HANDLED, ?s\<lparr>prev_up_button_irq := \<lparr>tv_sec = 10, tv_nsec = 200000000\<rparr>,
         led_event := UP, led_level_work := True\<rparr>)"
    by (simp add: timespec64_to_ns_def kernel_consts)
  from debounce_filter [OF v2 vd vu ne]
  have b: "button_irq_handler \<lparr>tv_sec = 10, tv_nsec = 199999999\<rparr> 183 ?s = (IRQ_HANDLED, ?s)"
    by (simp add: timespec64_to_ns_def kernel_consts)
  from v1 v2 v3 ne a b show ?thesis by simp
qed

text \<open>
  Claim C10: the handler returns \<^verbatim>\<open>IRQ_HANDLED\<close> on every path. Called with an
  interrupt number that is neither button's, it leaves both debounce clocks and the
  pending event as they are and still schedules the state-machine work, so the state
  machine runs once more on the event that is pending.
\<close>

theorem irq_handler_returns_handled:
  "fst (button_irq_handler now irq s) = IRQ_HANDLED
   \<and> (irq \<noteq> down_button_irq s \<and> irq \<noteq> up_button_irq s \<longrightarrow>
        button_irq_handler now irq s = (IRQ_HANDLED, s\<lparr>led_level_work := True\<rparr>)
        \<and> run_led_level_work cfg (s\<lparr>led_level_work := True\<rparr>) =
            Some (led_level_func cfg (s\<lparr>led_level_work := False\<rparr>))
        \<and> state_after (led_level_func cfg (s\<lparr>led_level_work := False\<rparr>)) =
            update_led_state cfg
              (fsm_functions (led_state s) (led_event s) (s\<lparr>led_level_work := False\<rparr>)))"
  by (simp add: button_irq_handler_def Let_def schedule_led_level_work_def
      run_led_level_work_def state_after_led_level_func)

text \<open>
  Interrupt 7 is no button's; the pending event is still the last Increase, and the run
  it triggers raises the level from 2 to 3.
\<close>

theorem irq_handler_returns_handled_witness:
  "(7 :: c_int) \<noteq> down_button_irq (initial_state\<lparr>down_button_irq := 183, up_button_irq := 184,
        led_level := 2, led_state := ON, led_event := UP\<rparr>)
   \<and> (7 :: c_int) \<noteq> up_button_irq (initial_state\<lparr>down_button_irq := 183, up_button_irq := 184,
        led_level := 2, led_state := ON, led_event := UP\<rparr>)
   \<and> button_irq_handler \<lparr>tv_sec = 50, tv_nsec = 0\<rparr> 7
        (initial_state\<lparr>down_button_irq := 183, up_button_irq := 184,
           led_level := 2, led_state := ON, led_event := UP\<rparr>)
       = (IRQ_HANDLED, initial_state\<lparr>down_button_irq := 183, up_button_irq := 184,
           led_level := 2, led_state := ON, led_event := UP, led_level_work := True\<rparr>)
   \<and> led_level (state_after (led_level_func default_config
        (initial_state\<lparr>down_button_irq := 183, up_button_irq := 184,
           led_level := 2, led_state := ON, led_event := UP, led_level_work := False\<rparr>))) = 3"
proof -
  let ?s = "initial_state\<lparr>down_button_irq := 183, up_button_irq := 184,
        led_level := 2, led_state := ON, led_event := UP\<rparr>"
  have ne: "(7 :: c_int) \<noteq> down_button_irq ?s \<and> (7 :: c_int) \<noteq> up_button_irq ?s"
    by simp
  from irq_handler_returns_handled [of "\<lparr>tv_sec = 50, tv_nsec = 0\<rparr>" 7 ?s default_config] ne
  have h: "button_irq_handler \<lparr>tv_sec = 50, tv_nsec = 0\<rparr> 7 ?s =
      (IRQ_HANDLED, ?s\<lparr>led_level_work := True\<rparr>)"
    and r: "state_after (led_level_func default_config (?s\<lparr>led_level_work := False\<rparr>)) =
            update_led_state default_config
              (fsm_functions (led_state ?s) (led_event ?s) (?s\<lparr>led_level_work := False\<rparr>))"
    by blast+
  have l: "led_level (update_led_state default_config
              (fsm_functions (led_state ?s) (led_event ?s) (?s\<lparr>led_level_work := False\<rparr>))) = 3"
    by (simp add: update_led_state_def increase_led_brightness_def Let_def)
  from ne h r l show ?thesis by simp
qed

subsection \<open>Startup\<close>

text \<open>
  When the registration of the second interrupt fails, the first interrupt and all three
  lines are released.
\<close>

lemma irq_failure_releases_lines:
  "pwm_led_init (example_board\<lparr>request_irq_ret := (\<lambda>irq. if irq = 184 then - 16 else 0)\<rparr>)
       default_config t1 t2 t3 initial_state =
     (- 16, default_config, initial_state\<lparr>down_button_irq := 183, up_button_irq := 184\<rparr>)"
  by (auto simp add: pwm_led_init_def validate_led_max_level_def setup_pwm_led_gpios_def
      setup_pwm_led_gpio_def setup_pwm_led_irqs_def setup_pwm_led_irq_def unset_pwm_led_gpios_def
      gpio_free_def free_irq_def gpio_direction_output_def gpio_set_value_def
      default_config_def example_board_def module_consts kernel_consts
      gpio_direction_input_def Let_def word_sless_alt word_sle_eq initial_state_def)

text \<open>
  Claim C9: when a startup step fails, every line acquired and every interrupt
  registered before it is released before the error is returned. The code does not
  satisfy it for a failure in \<open>setup_pwm_led_gpios\<close>: with an invalid line number for
  the up button, the line of the down button has been acquired, \<open>pwm_led_init\<close> returns
  \<^verbatim>\<open>-EINVAL\<close>, and the line is still held.
\<close>

theorem gpio_failure_keeps_line:
  "pwm_led_init example_board (default_config\<lparr>up_button_gpio := - 1\<rparr>) t1 t2 t3 initial_state =
     (- EINVAL, default_config\<lparr>up_button_gpio := - 1\<rparr>,
      initial_state\<lparr>gpio_held := {DOWN_BUTTON_GPIO}\<rparr>)
   \<and> - EINVAL \<noteq> 0 \<and> {DOWN_BUTTON_GPIO} \<noteq> {}"
  by (simp add: pwm_led_init_def validate_led_max_level_def setup_pwm_led_gpios_def
      setup_pwm_led_gpio_def default_config_def example_board_def module_consts kernel_consts
      gpio_direction_input_def Let_def word_sless_alt word_sle_eq initial_state_def)

subsection \<open>The software PWM engine\<close>

text \<open>
  Claim C8, as amended: at level 0 the output line is forced low; at the maximum level,
  when that level is not 0, the line is forced high. In both cases nothing else changes
  except that the work item is pending again: no dwell is computed and the timestamp of
  the last transition is not written.
\<close>

theorem pwm_boundary_levels:
  "(led_level s = 0 \<longrightarrow>
      led_ctrl_func cfg now s =
        Inr (s\<lparr>gpio_line := (gpio_line s)(led_gpio cfg := False), led_switch_work := True\<rparr>))
   \<and> (led_level s = led_max_level cfg \<and> led_level s \<noteq> 0 \<longrightarrow>
      led_ctrl_func cfg now s =
        Inr (s\<lparr>gpio_line := (gpio_line s)(led_gpio cfg := True), led_switch_work := True\<rparr>))"
  by (simp add: led_ctrl_func_def Let_def LED_MIN_LEVEL_def gpio_set_value_def
      schedule_led_switch_work_def LOW_def HIGH_def)

theorem pwm_boundary_levels_witness:
  "led_level initial_state = 0
   \<and> led_ctrl_func default_config \<lparr>tv_sec = 7, tv_nsec = 0\<rparr> initial_state =
        Inr (initial_state\<lparr>gpio_line := (gpio_line initial_state)(led_gpio default_config := False),
               led_switch_work := True\<rparr>)
   \<and> led_level (initial_state\<lparr>led_level := 5\<rparr>) = led_max_level default_config
   \<and> led_level (initial_state\<lparr>led_level := 5\<rparr>) \<noteq> 0
   \<and> led_ctrl_func default_config \<lparr>tv_sec = 7, tv_nsec = 0\<rparr> (initial_state\<lparr>led_level := 5\<rparr>) =
        Inr (initial_state\<lparr>led_level := 5,
               gpio_line := (gpio_line initial_state)(led_gpio default_config := True),
               led_switch_work := True\<rparr>)"
proof -
  have a: "led_level initial_state = 0"
    by (simp add: initial_state_def LED_MIN_LEVEL_def)
  have b: "led_level (initial_state\<lparr>led_level := 5\<rparr>) = led_max_level default_config
      \<and> led_level (initial_state\<lparr>led_level := 5\<rparr>) \<noteq> 0"
    by (simp add: default_config_def LED_MAX_LEVEL_DEFAULT_def)
  from pwm_boundary_levels [of initial_state default_config "\<lparr>tv_sec = 7, tv_nsec = 0\<rparr>"] a
  have c: "led_ctrl_func default_config \<lparr>tv_sec = 7, tv_nsec = 0\<rparr> initial_state =
        Inr (initial_state\<lparr>gpio_line := (gpio_line initial_state)(led_gpio default_config := False),
               led_switch_work := True\<rparr>)"
    by blast
  from pwm_boundary_levels [of "initial_state\<lparr>led_level := 5\<rparr>" default_config
      "\<lparr>tv_sec = 7, tv_nsec = 0\<rparr>"] b
  have d: "led_ctrl_func default_config \<lparr>tv_sec = 7, tv_nsec = 0\<rparr> (initial_state\<lparr>led_level := 5\<rparr>) =
        Inr (initial_state\<lparr>led_level := 5,
               gpio_line := (gpio_line initial_state)(led_gpio default_config := True),
               led_switch_work := True\<rparr>)"
    by simp
  from a b c d show ?thesis by blast
qed

text \<open>
  The claim as written asks for a high line whenever the level equals the maximum level.
  With a maximum level of 0 the level 0 equals it, and the line is forced low.
\<close>

theorem pwm_boundary_counterexample:
  "led_level initial_state =
     led_max_level (validate_led_max_level (default_config\<lparr>led_max_level := 0\<rparr>))
   \<and> (\<exists>s'. led_ctrl_func (validate_led_max_level (default_config\<lparr>led_max_level := 0\<rparr>))
              \<lparr>tv_sec = 0, tv_nsec = 0\<rparr> initial_state = Inr s'
            \<and> gpio_get_value
                (led_gpio (validate_led_max_level (default_config\<lparr>led_max_level := 0\<rparr>))) s' = LOW)
   \<and> LOW \<noteq> HIGH"
  by (simp add: validate_led_max_level_zero led_ctrl_func_def Let_def initial_state_def
      LED_MIN_LEVEL_def gpio_set_value_def gpio_get_value_def schedule_led_switch_work_def
      LOW_def HIGH_def default_config_def validate_led_max_level_def)

text \<open>
  Claim C4: with the level strictly between 0 and the maximum level, the line is flipped
  and the timestamp updated exactly when the nanoseconds elapsed since the last transition
  reach the required dwell. The code does not satisfy it: it multiplies the seconds of the
  interval by \<^verbatim>\<open>USEC_PER_SEC\<close> and stores the sum in an \<^verbatim>\<open>int\<close>.

  First case: period 10 ms, level 2 of 5, line high, so the dwell is 4 ms; one second
  after the last transition the code has computed 1000000 and leaves the line alone.
  Second case: the default parameters, level 1 of 5, line low, so the dwell is 80000 ns;
  2148 seconds after the last transition the value stored in the \<^verbatim>\<open>int\<close> is negative
  and the line is left alone.
\<close>

theorem pwm_no_flip_after_dwell:
  "required_delay (default_config\<lparr>pulse_frequency := 10000000\<rparr>) HIGH 2 = Inr 4000000
   \<and> timespec64_to_ns \<lparr>tv_sec = 101, tv_nsec = 0\<rparr> - timespec64_to_ns \<lparr>tv_sec = 100, tv_nsec = 0\<rparr>
       = 1000000000
   \<and> nanos_since \<lparr>tv_sec = 101, tv_nsec = 0\<rparr> \<lparr>tv_sec = 100, tv_nsec = 0\<rparr> = 1000000
   \<and> led_ctrl_func (default_config\<lparr>pulse_frequency := 10000000\<rparr>) \<lparr>tv_sec = 101, tv_nsec = 0\<rparr>
        (initial_state\<lparr>led_level := 2, led_state := ON, gpio_line := (\<lambda>_. False)(LED_GPIO := True),
           prev_led_switch := \<lparr>tv_sec = 100, tv_nsec = 0\<rparr>\<rparr>)
      = Inr (initial_state\<lparr>led_level := 2, led_state := ON,
           gpio_line := (\<lambda>_. False)(LED_GPIO := True),
           prev_led_switch := \<lparr>tv_sec = 100, tv_nsec = 0\<rparr>, led_switch_work := True\<rparr>)
   \<and> required_delay default_config LOW 1 = Inr 80000
   \<and> timespec64_to_ns \<lparr>tv_sec = 2148, tv_nsec = 0\<rparr> - timespec64_to_ns \<lparr>tv_sec = 0, tv_nsec = 0\<rparr>
       = 2148000000000
   \<and> sint (nanos_since \<lparr>tv_sec = 2148, tv_nsec = 0\<rparr> \<lparr>tv_sec = 0, tv_nsec = 0\<rparr>) = - 2146967296
   \<and> led_ctrl_func default_config \<lparr>tv_sec = 2148, tv_nsec = 0\<rparr>
        (initial_state\<lparr>led_level := 1, led_state := ON\<rparr>)
      = Inr (initial_state\<lparr>led_level := 1, led_state := ON, led_switch_work := True\<rparr>)"
  by (simp add: led_ctrl_func_def required_delay_def nanos_since_def timespec64_sub_def
      set_normalized_timespec64_def timespec64_to_ns_def c_div_def INT_MIN_def
      default_config_def module_consts kernel_consts gpio_get_value_def
      schedule_led_switch_work_def Let_def word_sle_eq signed_divide_int_def initial_state_def)





subsection \<open>The state machine with a positive maximum level\<close>

text \<open>
  With a maximum level of at least 1 the state machine does what the specification says:
  no run faults, the level stays between 0 and the maximum level, and increases and
  decreases saturate.
\<close>

lemma update_led_state_level:
  "led_level (update_led_state cfg s) = led_level s"
  by (simp add: update_led_state_def Let_def)

lemma update_led_state_state:
  "led_state (update_led_state cfg s) =
     (if led_level s = 0 then OFF else if led_level s = led_max_level cfg then MAX' else ON)"
  by (simp add: update_led_state_def Let_def LED_MIN_LEVEL_def)

lemma fsm_step_level:
  assumes pos: "1 \<le> sint (led_max_level cfg)"
    and inv: "level_invariant cfg s"
  shows "sint (led_level (fsm_functions (led_state s) e s)) =
           level_after_event (sint (led_max_level cfg)) e (sint (led_level s))"
proof -
  let ?l = "led_level s" and ?m = "led_max_level cfg"
  have r: "0 \<le> sint ?l" "sint ?l \<le> sint ?m"
    using inv by (simp_all add: level_invariant_def)
  have st: "led_state s = (if ?l = 0 then OFF else if ?l = ?m then MAX' else ON)"
    using inv by (simp add: level_invariant_def)
  have z: "?l = 0 \<longleftrightarrow> sint ?l = 0" by (simp add: signed_eq_0_iff)
  have e: "?l = ?m \<longleftrightarrow> sint ?l = sint ?m" by (rule word_eq_iff_signed)
  show ?thesis
  proof (cases e)
    case NONE
    then show ?thesis by (cases "led_state s") (simp_all add: do_nothing_def)
  next
    case UP
    show ?thesis
    proof (cases "?l = ?m")
      case True
      then have "led_state s = MAX'"
        using st z pos by auto
      then show ?thesis
        using UP True by (simp add: do_nothing_def)
    next
      case False
      then have lt: "sint ?l < sint ?m" using e r by simp
      then have "sint (?l + 1) = sint ?l + 1" by (rule sint_succ)
      moreover have "led_state s = OFF \<or> led_state s = ON" using st False by simp
      ultimately show ?thesis
        using UP lt by (auto simp add: increase_led_brightness_def)
    qed
  next
    case DOWN
    show ?thesis
    proof (cases "?l = 0")
      case True
      then show ?thesis using DOWN st by (simp add: do_nothing_def)
    next
      case False
      then have gt: "0 < sint ?l" using z r by simp
      then have "sint (?l - 1) = sint ?l - 1" by (rule sint_pred)
      moreover have "led_state s = MAX' \<or> led_state s = ON" using st False by simp
      ultimately show ?thesis
        using DOWN gt by (auto simp add: decrease_led_brightness_def)
    qed
  qed
qed

lemma led_level_func_no_fault:
  assumes pos: "1 \<le> sint (led_max_level cfg)"
  shows "led_level_func cfg s =
     Inr ((word_of_int (sint (100 * led_level (fsm_functions (led_state s) (led_event s) s))
                         sdiv sint (led_max_level cfg)),
           led_level (fsm_functions (led_state s) (led_event s) s)),
          update_led_state cfg (fsm_functions (led_state s) (led_event s) s))"
proof -
  have "led_max_level cfg \<noteq> 0" "led_max_level cfg \<noteq> - 1"
    using pos by auto
  then show ?thesis
    by (simp add: led_level_func_def c_div_def Let_def update_led_state_level)
qed

lemma level_invariant_step:
  assumes pos: "1 \<le> sint (led_max_level cfg)"
    and inv: "level_invariant cfg s"
  shows "level_invariant cfg (update_led_state cfg (fsm_functions (led_state s) e s))"
proof -
  have "sint (led_level (fsm_functions (led_state s) e s)) =
           level_after_event (sint (led_max_level cfg)) e (sint (led_level s))"
    using pos inv by (rule fsm_step_level)
  moreover have "0 \<le> sint (led_level s)" "sint (led_level s) \<le> sint (led_max_level cfg)"
    using inv by (simp_all add: level_invariant_def)
  ultimately have "0 \<le> sint (led_level (fsm_functions (led_state s) e s))
      \<and> sint (led_level (fsm_functions (led_state s) e s)) \<le> sint (led_max_level cfg)"
    using pos by (cases e) simp_all
  then show ?thesis
    by (simp add: level_invariant_def update_led_state_state update_led_state_level)
qed

lemma fsm_functions_led_event:
  "fsm_functions st e (s\<lparr>led_event := e'\<rparr>) = (fsm_functions st e s)\<lparr>led_event := e'\<rparr>"
  by (simp add: fsm_functions_spec_table)

lemma level_invariant_led_event:
  "level_invariant cfg (s\<lparr>led_event := e\<rparr>) = level_invariant cfg s"
  by (simp add: level_invariant_def)

lemma level_invariant_initial:
  "0 \<le> sint (led_max_level cfg) \<Longrightarrow> level_invariant cfg initial_state"
  by (simp add: level_invariant_def initial_state_def LED_MIN_LEVEL_def)

lemma run_events_level:
  assumes pos: "1 \<le> sint (led_max_level cfg)"
  shows "level_invariant cfg s \<Longrightarrow>
     \<exists>s'. run_events cfg es s = Inr s' \<and> level_invariant cfg s'
       \<and> sint (led_level s') =
           levels_after_events (sint (led_max_level cfg)) es (sint (led_level s))"
proof (induction es arbitrary: s)
  case Nil
  then show ?case by simp
next
  case (Cons e es)
  let ?s1 = "update_led_state cfg (fsm_functions (led_state s) e (s\<lparr>led_event := e\<rparr>))"
  have inv0: "level_invariant cfg (s\<lparr>led_event := e\<rparr>)"
    using Cons.prems by (simp add: level_invariant_led_event)
  have inv1: "level_invariant cfg ?s1"
    using level_invariant_step [OF pos inv0, of e] by simp
  have lev1: "sint (led_level ?s1) =
      level_after_event (sint (led_max_level cfg)) e (sint (led_level s))"
    using fsm_step_level [OF pos inv0, of e] by (simp add: update_led_state_level)
  have run: "run_events cfg (e # es) s = run_events cfg es ?s1"
    by (simp add: led_level_func_no_fault [OF pos])
  from Cons.IH [OF inv1] lev1 run show ?case by simp
qed

lemma increases_saturate:
  "0 \<le> l \<Longrightarrow> l \<le> m \<Longrightarrow>
     levels_after_events m (replicate n UP) l = min (l + int n) m"
  by (induction n arbitrary: l) auto

lemma decreases_saturate:
  "0 \<le> l \<Longrightarrow> l \<le> m \<Longrightarrow>
     levels_after_events m (replicate n DOWN) l = max (l - int n) 0"
  by (induction n arbitrary: l) auto

lemma level_in_range_positive_max:
  assumes pos: "1 \<le> sint (led_max_level cfg)"
  shows "\<exists>s'. run_events cfg es initial_state = Inr s'
           \<and> 0 \<le> sint (led_level s') \<and> sint (led_level s') \<le> sint (led_max_level cfg)"
proof -
  have "level_invariant cfg initial_state"
    using pos by (simp add: level_invariant_initial)
  from run_events_level [OF pos this, of es] show ?thesis
    by (auto simp add: level_invariant_def)
qed

lemma increases_from_zero_positive_max:
  assumes pos: "1 \<le> sint (led_max_level cfg)"
  shows "\<exists>s'. run_events cfg (replicate n UP) initial_state = Inr s'
           \<and> sint (led_level s') = min (int n) (sint (led_max_level cfg))"
proof -
  have inv: "level_invariant cfg initial_state"
    using pos by (simp add: level_invariant_initial)
  have z: "sint (led_level initial_state) = 0"
    by (simp add: initial_state_def LED_MIN_LEVEL_def)
  have "levels_after_events (sint (led_max_level cfg)) (replicate n UP) 0 =
      min (0 + int n) (sint (led_max_level cfg))"
    using pos by (intro increases_saturate) simp_all
  with run_events_level [OF pos inv, of "replicate n UP"] z show ?thesis
    by auto
qed

lemma decreases_from_max_positive_max:
  assumes pos: "1 \<le> sint (led_max_level cfg)"
  shows "\<exists>s'. run_events cfg (replicate n DOWN)
                 (initial_state\<lparr>led_level := led_max_level cfg, led_state := MAX'\<rparr>) = Inr s'
           \<and> sint (led_level s') = max (sint (led_max_level cfg) - int n) 0"
proof -
  let ?s = "initial_state\<lparr>led_level := led_max_level cfg, led_state := MAX'\<rparr>"
  have nz: "led_max_level cfg \<noteq> 0" using pos by auto
  have inv: "level_invariant cfg ?s"
    using pos nz by (simp add: level_invariant_def)
  have "levels_after_events (sint (led_max_level cfg)) (replicate n DOWN) (sint (led_max_level cfg)) =
      max (sint (led_max_level cfg) - int n) 0"
    using pos by (intro decreases_saturate) simp_all
  with run_events_level [OF pos inv, of "replicate n DOWN"] show ?thesis
    by auto
qed

end
